theory Spec2Isabelle
  imports Main
begin

section \<open>Values of apps/backend/main.py\<close>

text \<open>
  The module builds one \<open>PPStructureV3\<close> engine at import time, registers two GET
  routes (\<open>/\<close> and \<open>/test\<close>) and defines the request class \<open>OCRRequest\<close>, which no
  route takes. The engine, the clock, the console and the two \<open>save_to_*\<close> methods of
  a page result are outside the module: they are parameters of the model (\<open>external\<close>)
  and their effects are recorded in an explicit \<open>world\<close>.
\<close>

datatype py_error = IndexError | KeyError | EngineError | OSError

text \<open>The keyword arguments of the constructor call \<open>ocr = PPStructureV3(...)\<close>.\<close>

record pp_options =
  use_doc_orientation_classify :: bool
  use_doc_unwarping :: bool
  use_textline_orientation :: bool
  use_chart_recognition :: bool
  text_recognition_model_name :: string
  enable_mkldnn :: bool
  cpu_threads :: int

text \<open>
  One element of the list \<open>ocr.predict\<close> returns. The handler reads only the dict
  \<open>res.markdown\<close>; a dict is a map, and a missing key is a \<open>KeyError\<close>.
\<close>

record page_result =
  markdown :: "string \<rightharpoonup> string"

datatype artifact_kind = Markdown_file | Img_file

text \<open>One file written by \<open>save_to_markdown\<close> or \<open>save_to_img\<close>: which method, of which
  page, under which \<open>save_path\<close>.\<close>

type_synonym artifact = "artifact_kind \<times> page_result \<times> string"

record datetime =
  year :: nat
  month :: nat
  day :: nat
  hour :: nat
  minute :: nat
  second :: nat
  microsecond :: nat

text \<open>
  A line on the console. The last \<open>print\<close> of \<open>test\<close> formats the float
  \<open>(datetime.now() - time_start).total_seconds()\<close>; the line is kept symbolic, as the
  two clock readings it is computed from (end, start).
\<close>

datatype out_line = Line string | Time_taken datetime datetime

text \<open>What a handler returns: \<open>root\<close> a string, \<open>test\<close> a dict with string values (kept
  as the list of its items, in insertion order).\<close>

datatype response = Str string | Dict "(string \<times> string) list"

record world =
  stdout :: "out_line list"
  fs :: "artifact list"
  clock_reads :: nat
  constructed :: "pp_options list"
  predict_calls :: "(pp_options \<times> string) list"

text \<open>
  The behaviour of the collaborators: what the \<open>n\<close>-th \<open>predict\<close> call of the process
  answers (on an engine with given options and a given input path), whether writing an
  artifact raises given the files written so far, and what the \<open>n\<close>-th reading of the clock
  shows.
\<close>

record external =
  predict :: "pp_options \<Rightarrow> string \<Rightarrow> nat \<Rightarrow> py_error + page_result list"
  save_raises :: "artifact \<Rightarrow> artifact list \<Rightarrow> py_error option"
  now :: "nat \<Rightarrow> datetime"

text \<open>The request class \<open>OCRRequest\<close>: one field, described as a base64 encoded PDF
  file. No handler has a parameter of this class.\<close>

record ocr_request =
  file_str :: string

text \<open>The module's global variable \<open>ocr\<close>.\<close>

record globals =
  ocr :: pp_options

section \<open>Formatting the timestamp\<close>

definition digit_char :: "nat \<Rightarrow> char" where
  "digit_char n = ''0123456789'' ! n"


text \<open>\<open>%Y\<close>: the year in decimal. (The C library does not pad a year below 1000; no
  theorem below relies on such a year.)\<close>

fun dec :: "nat \<Rightarrow> string" where
  "dec n = (if n < 10 then [digit_char n] else dec (n div 10) @ [digit_char (n mod 10)])"

declare dec.simps [simp del]

text \<open>\<open>%m\<close>, \<open>%d\<close>, \<open>%H\<close>, \<open>%M\<close>, \<open>%S\<close>: two digits, zero-padded.\<close>

definition pad2 :: "nat \<Rightarrow> string" where
  "pad2 n = [digit_char (n div 10), digit_char (n mod 10)]"

text \<open>\<open>dt.strftime("%Y-%m-%d %H:%M:%S")\<close>.\<close>

definition strftime :: "datetime \<Rightarrow> string" where
  "strftime dt =
     dec (year dt) @ ''-'' @ pad2 (month dt) @ ''-'' @ pad2 (day dt) @ '' '' @
     pad2 (hour dt) @ '':'' @ pad2 (minute dt) @ '':'' @ pad2 (second dt)"




section \<open>The collaborators' calls\<close>

definition py_print :: "out_line \<Rightarrow> world \<Rightarrow> world" where
  "py_print l w = w\<lparr>stdout := stdout w @ [l]\<rparr>"

definition datetime_now :: "external \<Rightarrow> world \<Rightarrow> datetime \<times> world" where
  "datetime_now ext w = (now ext (clock_reads w), w\<lparr>clock_reads := Suc (clock_reads w)\<rparr>)"

text \<open>\<open>engine.predict(path)\<close>: the call is recorded, then answered.\<close>

definition engine_predict ::
  "external \<Rightarrow> pp_options \<Rightarrow> string \<Rightarrow> world \<Rightarrow> (py_error + page_result list) \<times> world" where
  "engine_predict ext engine input w =
     (predict ext engine input (length (predict_calls w)),
      w\<lparr>predict_calls := predict_calls w @ [(engine, input)]\<rparr>)"

text \<open>Writing one artifact: it raises and leaves the files as they are, or it adds the
  file.\<close>

definition save_artifact :: "external \<Rightarrow> artifact \<Rightarrow> world \<Rightarrow> (py_error + unit) \<times> world" where
  "save_artifact ext a w =
     (case save_raises ext a (fs w) of
        Some e \<Rightarrow> (Inl e, w)
      | None \<Rightarrow> (Inr (), w\<lparr>fs := fs w @ [a]\<rparr>))"

definition save_to_markdown ::
  "external \<Rightarrow> page_result \<Rightarrow> string \<Rightarrow> world \<Rightarrow> (py_error + unit) \<times> world" where
  "save_to_markdown ext res save_path w = save_artifact ext (Markdown_file, res, save_path) w"

definition save_to_img ::
  "external \<Rightarrow> page_result \<Rightarrow> string \<Rightarrow> world \<Rightarrow> (py_error + unit) \<times> world" where
  "save_to_img ext res save_path w = save_artifact ext (Img_file, res, save_path) w"

section \<open>The module\<close>

text \<open>The options of the one constructor call at module level.\<close>

definition startup_options :: pp_options where
  "startup_options =
     \<lparr>use_doc_orientation_classify = False,
      use_doc_unwarping = False,
      use_textline_orientation = False,
      use_chart_recognition = False,
      text_recognition_model_name = ''en_PP-OCRv4_mobile_rec'',
      enable_mkldnn = True,
      cpu_threads = 8\<rparr>"

text \<open>Importing the module: \<open>ocr = PPStructureV3(...)\<close> builds the engine and binds the
  global.\<close>

definition module_init :: "world \<Rightarrow> globals \<times> world" where
  "module_init w =
     (\<lparr>ocr = startup_options\<rparr>, w\<lparr>constructed := constructed w @ [startup_options]\<rparr>)"

text \<open>\<open>root\<close>: prints, then returns the constant string.\<close>

definition root :: "world \<Rightarrow> (py_error + response) \<times> world" where
  "root w = (Inr (Str ''main chicka''), py_print (Line ''hello world'') w)"

text \<open>\<open>markdown = result[0].markdown["markdown_texts"]\<close>: the only place where the
  response text is computed.\<close>

definition result_markdown :: "page_result list \<Rightarrow> py_error + string" where
  "result_markdown result =
     (case result of
        [] \<Rightarrow> Inl IndexError
      | r0 # _ \<Rightarrow>
          (case markdown r0 ''markdown_texts'' of
             None \<Rightarrow> Inl KeyError
           | Some text \<Rightarrow> Inr text))"

text \<open>The loop \<open>for res in result: res.save_to_markdown(save_path="output");
  res.save_to_img(save_path="output")\<close>. Nothing catches an exception: it leaves the loop.\<close>

fun save_loop :: "external \<Rightarrow> page_result list \<Rightarrow> world \<Rightarrow> (py_error + unit) \<times> world" where
  "save_loop ext [] w = (Inr (), w)"
| "save_loop ext (res # rest) w =
     (case save_to_markdown ext res ''output'' w of
        (Inl e, w1) \<Rightarrow> (Inl e, w1)
      | (Inr _, w1) \<Rightarrow>
          (case save_to_img ext res ''output'' w1 of
             (Inl e, w2) \<Rightarrow> (Inl e, w2)
           | (Inr _, w2) \<Rightarrow> save_loop ext rest w2))"

text \<open>\<open>test\<close>, statement by statement. An exception ends the handler with the world as
  it is at that point.\<close>

definition test :: "globals \<Rightarrow> external \<Rightarrow> world \<Rightarrow> (py_error + response) \<times> world" where
  "test g ext w =
     (let w1 = py_print (Line ''testing OCR'') w;
          (time_start, w2) = datetime_now ext w1;
          test_pdf = ''./test1.png''
      in case engine_predict ext (ocr g) test_pdf w2 of
           (Inl e, w3) \<Rightarrow> (Inl e, w3)
         | (Inr result, w3) \<Rightarrow>
             (case result_markdown result of
                Inl e \<Rightarrow> (Inl e, w3)
              | Inr md \<Rightarrow>
                  (case save_loop ext result w3 of
                     (Inl e, w4) \<Rightarrow> (Inl e, w4)
                   | (Inr _, w4) \<Rightarrow>
                       (let w5 = py_print (Line ''OCR test completed'') w4;
                            (t1, w6) = datetime_now ext w5;
                            w7 = py_print (Time_taken t1 time_start) w6;
                            (t2, w8) = datetime_now ext w7
                        in (Inr (Dict [(''result'', md), (''timestamp'', strftime t2)]),
                            w8)))))"

section \<open>Routing\<close>

datatype http_verb = GET | HEAD | POST | PUT | PATCH | DELETE | OPTIONS

record request =
  verb :: http_verb
  path :: string
  body :: string

datatype handler = Root | Test

text \<open>The decorators \<open>@app.get('/')\<close> and \<open>@app.get("/test")\<close>.\<close>

definition routes :: "((http_verb \<times> string) \<times> handler) list" where
  "routes = [((GET, ''/''), Root), ((GET, ''/test''), Test)]"

text \<open>What the caller sees instead of a response: an exception that left the handler, or
  no route for the request.\<close>

datatype failure = Unhandled py_error | Not_routed

definition to_caller :: "(py_error + response) \<times> world \<Rightarrow> (failure + response) \<times> world" where
  "to_caller rw = (case rw of (Inl e, w) \<Rightarrow> (Inl (Unhandled e), w) | (Inr r, w) \<Rightarrow> (Inr r, w))"

text \<open>Neither handler has a parameter, so nothing of the request reaches it.\<close>

definition serve :: "globals \<Rightarrow> external \<Rightarrow> request \<Rightarrow> world \<Rightarrow> (failure + response) \<times> world" where
  "serve g ext req w =
     (case map_of routes (verb req, path req) of
        None \<Rightarrow> (Inl Not_routed, w)
      | Some Root \<Rightarrow> to_caller (root w)
      | Some Test \<Rightarrow> to_caller (test g ext w))"

fun serve_all :: "globals \<Rightarrow> external \<Rightarrow> request list \<Rightarrow> world \<Rightarrow> world" where
  "serve_all g ext [] w = w"
| "serve_all g ext (req # reqs) w = serve_all g ext reqs (snd (serve g ext req w))"

text \<open>A process: the module is imported into a fresh world, then the requests are served
  one after the other.\<close>

definition fresh_world :: world where
  "fresh_world = \<lparr>stdout = [], fs = [], clock_reads = 0, constructed = [], predict_calls = []\<rparr>"

definition process_run :: "external \<Rightarrow> request list \<Rightarrow> world" where
  "process_run ext reqs = (case module_init fresh_world of (g, w) \<Rightarrow> serve_all g ext reqs w)"


section \<open>Notions used in the statements\<close>

text \<open>The engine's answer to the one \<open>predict\<close> call \<open>test\<close> makes in world \<open>w\<close>.\<close>

definition test_pages :: "globals \<Rightarrow> external \<Rightarrow> world \<Rightarrow> py_error + page_result list" where
  "test_pages g ext w = predict ext (ocr g) ''./test1.png'' (length (predict_calls w))"

text \<open>The artifacts of a page sequence: for every page, in page order, its markdown file
  and then its annotated image, both under the directory \<open>output\<close>.\<close>

definition artifacts_of :: "page_result list \<Rightarrow> artifact list" where
  "artifacts_of pages =
     concat (map (\<lambda>p. [(Markdown_file, p, ''output''), (Img_file, p, ''output'')]) pages)"

text \<open>Writing a list of artifacts one after the other, stopping at the first that raises:
  the loop of \<open>test\<close>, seen as a loop over the artifacts (lemma \<open>save_loop_write_seq\<close>).\<close>

fun write_seq :: "external \<Rightarrow> artifact list \<Rightarrow> world \<Rightarrow> (py_error + unit) \<times> world" where
  "write_seq ext [] w = (Inr (), w)"
| "write_seq ext (a # as) w =
     (case save_artifact ext a w of
        (Inl e, w1) \<Rightarrow> (Inl e, w1)
      | (Inr _, w1) \<Rightarrow> write_seq ext as w1)"

text \<open>
  The aggregation of section 4.3 of the specification, in the specification's words
  (not in the source): every page contributes its textual rendering, verbatim and as one
  unit, in page order. The aggregated text is the concatenation of the units.
\<close>

definition aggregate_spec :: "page_result list \<Rightarrow> string list" where
  "aggregate_spec pages = List.map_filter (\<lambda>p. markdown p ''markdown_texts'') pages"

text \<open>
  Modelled from the spec: the text-safe byte encoding (base64, RFC 4648, with padding).
  The source imports \<open>base64\<close> and never calls it; validity is defined only to name
  payloads that are not valid.
\<close>

definition b64_alphabet :: string where
  "b64_alphabet = ''ABCDEFGHIJKLMNOPQRSTUVWXYZabcdefghijklmnopqrstuvwxyz0123456789+/''"

definition b64_valid :: "string \<Rightarrow> bool" where
  "b64_valid s =
     (length s mod 4 = 0 \<and>
      list_all (\<lambda>c. c \<in> set b64_alphabet) (takeWhile (\<lambda>c. c \<noteq> CHR ''='') s) \<and>
      dropWhile (\<lambda>c. c \<noteq> CHR ''='') s \<in> {[], ''='', ''==''})"

subsection \<open>Concrete scenarios\<close>

definition page_one :: page_result where
  "page_one = \<lparr>markdown = [''markdown_texts'' \<mapsto> ''Page One Text'']\<rparr>"

definition page_two :: page_result where
  "page_two = \<lparr>markdown = [''markdown_texts'' \<mapsto> ''Page Two Text'']\<rparr>"

definition sample_clock :: "nat \<Rightarrow> datetime" where
  "sample_clock n =
     \<lparr>year = 2025, month = 8, day = 17, hour = 9, minute = 30, second = n mod 60,
      microsecond = 0\<rparr>"

text \<open>An engine that answers every call with the given pages; every write succeeds.\<close>

definition sample_ext :: "page_result list \<Rightarrow> external" where
  "sample_ext pages =
     \<lparr>predict = (\<lambda>engine input n. Inr pages),
      save_raises = (\<lambda>a written. None),
      now = sample_clock\<rparr>"

text \<open>The same, but writing an annotated image raises.\<close>

definition img_fails_ext :: "page_result list \<Rightarrow> external" where
  "img_fails_ext pages =
     \<lparr>predict = (\<lambda>engine input n. Inr pages),
      save_raises = (\<lambda>a written. if fst a = Img_file then Some OSError else None),
      now = sample_clock\<rparr>"

definition test_request :: "string \<Rightarrow> request" where
  "test_request payload = \<lparr>verb = GET, path = ''/test'', body = payload\<rparr>"

definition root_request :: "string \<Rightarrow> request" where
  "root_request payload = \<lparr>verb = GET, path = ''/'', body = payload\<rparr>"

text \<open>The globals and the world of a process right after the module was imported.\<close>

definition booted_globals :: globals where
  "booted_globals = fst (module_init fresh_world)"

definition booted_world :: world where
  "booted_world = snd (module_init fresh_world)"

section \<open>Lemmas on the loop, the handler and the timestamp\<close>

lemma save_loop_write_seq: "save_loop ext ps w = write_seq ext (artifacts_of ps) w"
proof (induction ps arbitrary: w)
  case Nil
  show ?case by (simp add: artifacts_of_def)
next
  case (Cons p ps)
  have IH: "\<And>w. save_loop ext ps w = write_seq ext (artifacts_of ps) w" by (rule Cons.IH)
  show ?case
    using IH
    by (simp add: artifacts_of_def save_to_markdown_def save_to_img_def
        split: prod.splits sum.splits)
qed

lemma write_seq_fail:
  "n < length as \<Longrightarrow>
   (\<forall>i<n. save_raises ext (as ! i) (fs w @ take i as) = None) \<Longrightarrow>
   save_raises ext (as ! n) (fs w @ take n as) = Some e \<Longrightarrow>
   write_seq ext as w = (Inl e, w\<lparr>fs := fs w @ take n as\<rparr>)"
proof (induction as arbitrary: n w)
  case Nil
  then show ?case by simp
next
  case (Cons a as)
  show ?case
  proof (cases n)
    case 0
    with Cons.prems show ?thesis by (simp add: save_artifact_def)
  next
    case (Suc m)
    from Cons.prems(2) Suc have a_ok: "save_raises ext a (fs w) = None"
      by (drule_tac x = 0 in spec) simp
    let ?w1 = "w\<lparr>fs := fs w @ [a]\<rparr>"
    have m_lt: "m < length as" using Cons.prems(1) Suc by simp
    have before: "\<forall>i<m. save_raises ext (as ! i) (fs ?w1 @ take i as) = None"
    proof (intro allI impI)
      fix i assume "i < m"
      then have "Suc i < n" using Suc by simp
      with Cons.prems(2) have "save_raises ext ((a # as) ! Suc i) (fs w @ take (Suc i) (a # as)) = None"
        by blast
      then show "save_raises ext (as ! i) (fs ?w1 @ take i as) = None" by simp
    qed
    have at: "save_raises ext (as ! m) (fs ?w1 @ take m as) = Some e"
      using Cons.prems(3) Suc by simp
    have "write_seq ext as ?w1 = (Inl e, ?w1\<lparr>fs := fs ?w1 @ take m as\<rparr>)"
      by (rule Cons.IH [OF m_lt before at])
    then show ?thesis using a_ok Suc by (simp add: save_artifact_def)
  qed
qed

lemma write_seq_ok:
  "write_seq ext as w = (Inr u, w') \<Longrightarrow> w' = w\<lparr>fs := fs w @ as\<rparr>"
proof (induction as arbitrary: w)
  case Nil
  then show ?case by simp
next
  case (Cons a as)
  from Cons.prems obtain w1 where
    s: "save_artifact ext a w = (Inr (), w1)" and r: "write_seq ext as w1 = (Inr u, w')"
    by (auto split: prod.splits sum.splits)
  from s have w1: "w1 = w\<lparr>fs := fs w @ [a]\<rparr>"
    by (auto simp: save_artifact_def split: option.splits)
  from Cons.IH [OF r] w1 show ?case by simp
qed

lemma test_unfold:
  "test g ext w =
     (case test_pages g ext w of
        Inl e \<Rightarrow>
          (Inl e, w\<lparr>stdout := stdout w @ [Line ''testing OCR''],
                    clock_reads := Suc (clock_reads w),
                    predict_calls := predict_calls w @ [(ocr g, ''./test1.png'')]\<rparr>)
      | Inr result \<Rightarrow>
          (case result_markdown result of
             Inl e \<Rightarrow>
               (Inl e, w\<lparr>stdout := stdout w @ [Line ''testing OCR''],
                         clock_reads := Suc (clock_reads w),
                         predict_calls := predict_calls w @ [(ocr g, ''./test1.png'')]\<rparr>)
           | Inr md \<Rightarrow>
               (case write_seq ext (artifacts_of result)
                       (w\<lparr>stdout := stdout w @ [Line ''testing OCR''],
                          clock_reads := Suc (clock_reads w),
                          predict_calls := predict_calls w @ [(ocr g, ''./test1.png'')]\<rparr>) of
                  (Inl e, w4) \<Rightarrow> (Inl e, w4)
                | (Inr _, w4) \<Rightarrow>
                    (Inr (Dict [(''result'', md),
                                (''timestamp'', strftime (now ext (Suc (clock_reads w4))))]),
                     w4\<lparr>stdout := stdout w4 @
                           [Line ''OCR test completed'',
                            Time_taken (now ext (clock_reads w4)) (now ext (clock_reads w))],
                         clock_reads := Suc (Suc (clock_reads w4))\<rparr>))))"
  by (simp add: test_def test_pages_def Let_def py_print_def datetime_now_def engine_predict_def
      save_loop_write_seq split: sum.splits prod.splits)




lemma write_seq_fields:
  "write_seq ext as w = (r, w') \<Longrightarrow>
   stdout w' = stdout w \<and> clock_reads w' = clock_reads w \<and>
   constructed w' = constructed w \<and> predict_calls w' = predict_calls w"
proof (induction as arbitrary: w)
  case Nil
  then show ?case by auto
next
  case (Cons a as)
  show ?case
  proof (cases "save_raises ext a (fs w)")
    case None
    with Cons.prems have "write_seq ext as (w\<lparr>fs := fs w @ [a]\<rparr>) = (r, w')"
      by (simp add: save_artifact_def)
    from Cons.IH [OF this] show ?thesis by simp
  next
    case (Some e)
    with Cons.prems show ?thesis by (auto simp: save_artifact_def)
  qed
qed

lemma test_world:
  "constructed (snd (test g ext w)) = constructed w \<and>
   predict_calls (snd (test g ext w)) = predict_calls w @ [(ocr g, ''./test1.png'')]"
proof (cases "test_pages g ext w")
  case (Inl e)
  then show ?thesis by (simp add: test_unfold)
next
  case (Inr result)
  show ?thesis
  proof (cases "result_markdown result")
    case (Inl e)
    with Inr show ?thesis by (simp add: test_unfold)
  next
    case md: (Inr md)
    let ?w3 = "w\<lparr>stdout := stdout w @ [Line ''testing OCR''],
                 clock_reads := Suc (clock_reads w),
                 predict_calls := predict_calls w @ [(ocr g, ''./test1.png'')]\<rparr>"
    obtain r w4 where ws: "write_seq ext (artifacts_of result) ?w3 = (r, w4)"
      by (cases "write_seq ext (artifacts_of result) ?w3") auto
    from write_seq_fields [OF ws] have
      f: "constructed w4 = constructed w" "predict_calls w4 = predict_calls w @ [(ocr g, ''./test1.png'')]"
      by simp_all
    show ?thesis using Inr md ws f by (cases r) (simp_all add: test_unfold)
  qed
qed

lemma serve_world:
  "constructed (snd (serve g ext req w)) = constructed w \<and>
   predict_calls (snd (serve g ext req w)) =
     predict_calls w @
     (if verb req = GET \<and> path req = ''/test'' then [(ocr g, ''./test1.png'')] else [])"
proof -
  have tc: "\<And>rw. snd (to_caller rw) = snd rw"
    by (simp add: to_caller_def split: prod.splits sum.splits)
  show ?thesis
    using test_world [of g ext w]
    by (simp add: serve_def routes_def tc root_def py_print_def)
qed

lemma serve_all_world:
  "constructed (serve_all g ext reqs w) = constructed w \<and>
   predict_calls (serve_all g ext reqs w) =
     predict_calls w @
     replicate (length (filter (\<lambda>r. verb r = GET \<and> path r = ''/test'') reqs))
       (ocr g, ''./test1.png'')"
proof (induction reqs arbitrary: w)
  case Nil
  show ?case by simp
next
  case (Cons req reqs)
  show ?case
    using Cons.IH [of "snd (serve g ext req w)"] serve_world [of g ext req w]
    by (simp add: replicate_app_Cons_same)
qed


lemma serve_test: "serve g ext (test_request payload) w = to_caller (test g ext w)"
  by (simp add: serve_def routes_def test_request_def)

lemma to_caller_simps:
  "fst (to_caller rw) = (case fst rw of Inl e \<Rightarrow> Inl (Unhandled e) | Inr r \<Rightarrow> Inr r)"
  "snd (to_caller rw) = snd rw"
  by (simp_all add: to_caller_def split: prod.splits sum.splits)

lemma test_failure:
  assumes "test_pages g ext w = Inr pages" and "result_markdown pages = Inr md"
    and "n < length (artifacts_of pages)"
    and "\<forall>i<n. save_raises ext (artifacts_of pages ! i) (fs w @ take i (artifacts_of pages)) = None"
    and "save_raises ext (artifacts_of pages ! n) (fs w @ take n (artifacts_of pages)) = Some e"
  shows "fst (test g ext w) = Inl e \<and> fs (snd (test g ext w)) = fs w @ take n (artifacts_of pages)"
proof -
  let ?w3 = "w\<lparr>stdout := stdout w @ [Line ''testing OCR''],
               clock_reads := Suc (clock_reads w),
               predict_calls := predict_calls w @ [(ocr g, ''./test1.png'')]\<rparr>"
  have f: "fs ?w3 = fs w" by simp
  have "write_seq ext (artifacts_of pages) ?w3 =
          (Inl e, ?w3\<lparr>fs := fs ?w3 @ take n (artifacts_of pages)\<rparr>)"
    by (rule write_seq_fail) (use assms f in simp_all)
  then show ?thesis using assms(1,2) by (simp add: test_unfold)
qed

lemma test_success:
  assumes "fst (test g ext w) = Inr r"
  shows "\<exists>pages md. test_pages g ext w = Inr pages \<and> result_markdown pages = Inr md \<and>
           r = Dict [(''result'', md), (''timestamp'', strftime (now ext (clock_reads w + 2)))] \<and>
           fs (snd (test g ext w)) = fs w @ artifacts_of pages \<and>
           clock_reads (snd (test g ext w)) = clock_reads w + 3"
proof (cases "test_pages g ext w")
  case (Inl e)
  with assms show ?thesis by (simp add: test_unfold)
next
  case (Inr pages)
  show ?thesis
  proof (cases "result_markdown pages")
    case (Inl e)
    with Inr assms show ?thesis by (simp add: test_unfold)
  next
    case md: (Inr md)
    let ?w3 = "w\<lparr>stdout := stdout w @ [Line ''testing OCR''],
                 clock_reads := Suc (clock_reads w),
                 predict_calls := predict_calls w @ [(ocr g, ''./test1.png'')]\<rparr>"
    obtain x w4 where ws: "write_seq ext (artifacts_of pages) ?w3 = (x, w4)"
      by (cases "write_seq ext (artifacts_of pages) ?w3") auto
    show ?thesis
    proof (cases x)
      case (Inl e)
      with Inr md ws assms show ?thesis by (simp add: test_unfold)
    next
      case u: (Inr u)
      from write_seq_ok [OF ws [unfolded u]] have w4: "w4 = ?w3\<lparr>fs := fs ?w3 @ artifacts_of pages\<rparr>" .
      from Inr md ws u assms w4 show ?thesis by (simp add: test_unfold)
    qed
  qed
qed

section \<open>The claims\<close>

text \<open>Unfolding the whole model, to run it on a concrete scenario.\<close>

lemmas run_defs =
  serve_def routes_def to_caller_def test_def root_def Let_def py_print_def datetime_now_def
  engine_predict_def result_markdown_def save_to_markdown_def save_to_img_def save_artifact_def
  fresh_world_def module_init_def booted_globals_def booted_world_def test_request_def
  root_request_def sample_ext_def img_fails_ext_def page_one_def page_two_def
  strftime_def pad2_def digit_char_def sample_clock_def dec.simps

text \<open>
  C1, as stated: the aggregation step returns the ordered concatenation of the renderings
  of all N pages. It does not. On the two pages of the specification's scenario the
  handler's step \<open>result[0].markdown["markdown_texts"]\<close> returns the first page's text
  alone, while the concatenation holds both.
\<close>

theorem aggregation_counterexample:
  "result_markdown [page_one, page_two] = Inr ''Page One Text'' \<and>
   concat (aggregate_spec [page_one, page_two]) = ''Page One TextPage Two Text'' \<and>
   result_markdown [page_one, page_two] \<noteq> Inr (concat (aggregate_spec [page_one, page_two]))"
  by (simp add: result_markdown_def aggregate_spec_def page_one_def page_two_def
      List.map_filter_simps)

text \<open>
  C1, amended: for every sequence of N \<open>\<ge>\<close> 1 page results whose first page carries a
  rendering, the step returns the rendering of the first page, verbatim, whatever the
  other pages are; for N = 1 this is the ordered concatenation of all pages' renderings.
\<close>

theorem result_markdown_first_page:
  assumes "markdown p ''markdown_texts'' = Some t"
  shows "result_markdown (p # rest) = Inr t \<and>
         result_markdown [p] = Inr (concat (aggregate_spec [p]))"
  using assms by (simp add: result_markdown_def aggregate_spec_def List.map_filter_simps)

theorem result_markdown_first_page_witness:
  "markdown page_one ''markdown_texts'' = Some ''Page One Text'' \<and>
   result_markdown [page_one, page_two] = Inr ''Page One Text'' \<and>
   result_markdown [page_one] = Inr (concat (aggregate_spec [page_one]))"
proof -
  have h: "markdown page_one ''markdown_texts'' = Some ''Page One Text''"
    by (simp add: page_one_def)
  show ?thesis
    using h result_markdown_first_page [OF h, of "[page_two]"] by simp
qed

text \<open>
  C2, as stated: a failure while writing an artifact of page k does not abort the later
  pages and does not fail the request. It does both. With two pages and an image writer
  that raises, the request ends with the writer's exception and the only file written is
  the first page's markdown; with a writer that never raises the same request returns
  its envelope.
\<close>

theorem write_failure_counterexample:
  "fst (serve booted_globals (img_fails_ext [page_one, page_two]) (test_request []) booted_world) =
     Inl (Unhandled OSError) \<and>
   fs (snd (serve booted_globals (img_fails_ext [page_one, page_two]) (test_request [])
              booted_world)) =
     [(Markdown_file, page_one, ''output'')] \<and>
   fst (serve booted_globals (sample_ext [page_one, page_two]) (test_request []) booted_world) =
     Inr (Dict [(''result'', ''Page One Text''), (''timestamp'', ''2025-08-17 09:30:02'')])"
  by (simp add: run_defs)

text \<open>
  C3, evaluated on the code: when the engine returns no page, \<open>result[0]\<close> raises
  \<open>IndexError\<close>; the request to \<open>/test\<close> fails with it and writes nothing.
\<close>

theorem empty_result_raises:
  "result_markdown [] = Inl IndexError \<and>
   fst (serve booted_globals (sample_ext []) (test_request []) booted_world) =
     Inl (Unhandled IndexError) \<and>
   fs (snd (serve booted_globals (sample_ext []) (test_request []) booted_world)) = []"
  by (simp add: run_defs)

text \<open>
  C10: the root endpoint returns the string \<open>main chicka\<close> for every invocation,
  whatever the request carries and whatever happened before (the world \<open>w\<close>).
\<close>

theorem root_constant:
  "fst (root w) = Inr (Str ''main chicka'') \<and>
   fst (serve g ext (root_request payload) w) = Inr (Str ''main chicka'')"
  by (simp add: root_def serve_def routes_def root_request_def to_caller_def)

text \<open>
  C2, amended: when the engine has answered and the first page has a rendering, a failure
  while writing the \<open>n\<close>-th artifact of the page sequence (the first write that fails)
  ends the request with that exception: the caller gets the failure and no envelope, the
  artifacts before the \<open>n\<close>-th are written and no later one is, so no later page is
  processed.
\<close>

theorem write_failure_aborts:
  assumes "test_pages g ext w = Inr pages" and "result_markdown pages = Inr md"
    and "n < length (artifacts_of pages)"
    and "\<forall>i<n. save_raises ext (artifacts_of pages ! i) (fs w @ take i (artifacts_of pages)) = None"
    and "save_raises ext (artifacts_of pages ! n) (fs w @ take n (artifacts_of pages)) = Some e"
  shows "fst (serve g ext (test_request payload) w) = Inl (Unhandled e) \<and>
         fs (snd (serve g ext (test_request payload) w)) = fs w @ take n (artifacts_of pages)"
  using test_failure [OF assms] by (simp add: serve_test to_caller_simps)

text \<open>C2, amended, on two pages with an image writer that raises: the second artifact
  (the first page's image) fails, and only the first page's markdown file is written.\<close>

theorem write_failure_aborts_witness:
  "test_pages booted_globals (img_fails_ext [page_one, page_two]) booted_world =
     Inr [page_one, page_two] \<and>
   result_markdown [page_one, page_two] = Inr ''Page One Text'' \<and>
   save_raises (img_fails_ext [page_one, page_two]) (artifacts_of [page_one, page_two] ! 0)
     (fs booted_world) = None \<and>
   save_raises (img_fails_ext [page_one, page_two]) (artifacts_of [page_one, page_two] ! 1)
     (fs booted_world @ take 1 (artifacts_of [page_one, page_two])) = Some OSError \<and>
   fst (serve booted_globals (img_fails_ext [page_one, page_two]) (test_request ''x'')
          booted_world) = Inl (Unhandled OSError) \<and>
   fs (snd (serve booted_globals (img_fails_ext [page_one, page_two]) (test_request ''x'')
              booted_world)) = fs booted_world @ take 1 (artifacts_of [page_one, page_two])"
proof -
  let ?ext = "img_fails_ext [page_one, page_two]"
  let ?as = "artifacts_of [page_one, page_two]"
  have a: "test_pages booted_globals ?ext booted_world = Inr [page_one, page_two]"
    by (simp add: test_pages_def img_fails_ext_def)
  have b: "result_markdown [page_one, page_two] = Inr ''Page One Text''"
    by (simp add: result_markdown_def page_one_def)
  have c: "1 < length ?as" by (simp add: artifacts_of_def)
  have d0: "save_raises ?ext (?as ! 0) (fs booted_world) = None"
    by (simp add: img_fails_ext_def artifacts_of_def)
  have d: "\<forall>i<1. save_raises ?ext (?as ! i) (fs booted_world @ take i ?as) = None"
    using d0 by simp
  have e: "save_raises ?ext (?as ! 1) (fs booted_world @ take 1 ?as) = Some OSError"
    by (simp add: img_fails_ext_def artifacts_of_def)
  show ?thesis
    using a b d0 e write_failure_aborts [OF a b c d e, of "''x''"] by simp
qed

text \<open>
  C4, as stated: a payload that is not valid base64 is answered with an error and never
  reaches the engine. The service has no route that reads a payload: a GET request to
  \<open>/test\<close> that carries the invalid payload \<open>not base64!\<close> is answered with a normal
  envelope, and the engine has been invoked.
\<close>

theorem malformed_payload_counterexample:
  "\<not> b64_valid ''not base64!'' \<and>
   fst (serve booted_globals (sample_ext [page_one]) (test_request ''not base64!'') booted_world) =
     Inr (Dict [(''result'', ''Page One Text''), (''timestamp'', ''2025-08-17 09:30:02'')]) \<and>
   predict_calls (snd (serve booted_globals (sample_ext [page_one])
                         (test_request ''not base64!'') booted_world)) =
     [(startup_options, ''./test1.png'')]"
  by (simp add: run_defs b64_valid_def)

text \<open>
  C4, amended: no route of the service decodes a payload. For every request, the outcome
  is the same whatever payload the request carries, valid or not; the engine is invoked
  exactly by a GET request to \<open>/test\<close>, once, on the fixed file \<open>./test1.png\<close>, and by no
  other request.
\<close>

theorem payload_never_read:
  "serve g ext (req\<lparr>body := payload\<rparr>) w = serve g ext req w \<and>
   predict_calls (snd (serve g ext req w)) =
     predict_calls w @
     (if verb req = GET \<and> path req = ''/test'' then [(ocr g, ''./test1.png'')] else [])"
  using serve_world [of g ext req w] by (simp add: serve_def)



text \<open>
  C6: in every run of a process (the module imported once, then any list of requests
  served), the engine constructor has been called exactly once, with the options fixed in
  the module; every \<open>predict\<close> call of the run is made on that engine with those options
  (mobile recognition model, the four preprocessing stages disabled, 8 CPU threads), so no
  request changes them.
\<close>

theorem engine_built_once:
  "constructed (process_run ext reqs) = [startup_options] \<and>
   predict_calls (process_run ext reqs) =
     replicate (length (filter (\<lambda>r. verb r = GET \<and> path r = ''/test'') reqs))
       (startup_options, ''./test1.png'') \<and>
   text_recognition_model_name startup_options = ''en_PP-OCRv4_mobile_rec'' \<and>
   cpu_threads startup_options = 8 \<and>
   \<not> use_doc_orientation_classify startup_options \<and>
   \<not> use_doc_unwarping startup_options \<and>
   \<not> use_textline_orientation startup_options \<and>
   \<not> use_chart_recognition startup_options"
proof -
  have "constructed (process_run ext reqs) = [startup_options]"
    using serve_all_world [of "\<lparr>ocr = startup_options\<rparr>" ext reqs]
    by (simp add: process_run_def module_init_def fresh_world_def)
  moreover have "predict_calls (process_run ext reqs) =
     replicate (length (filter (\<lambda>r. verb r = GET \<and> path r = ''/test'') reqs))
       (startup_options, ''./test1.png'')"
    using serve_all_world [of "\<lparr>ocr = startup_options\<rparr>" ext reqs]
    by (simp add: process_run_def module_init_def fresh_world_def)
  ultimately show ?thesis by (simp add: startup_options_def)
qed



text \<open>
  C8: the text a request returns is a function of the page sequence alone. Two successful
  requests whose engine answers are the same page sequence return the same \<open>result\<close>,
  whatever the worlds they run in (clock, console, files written, earlier requests) and
  whatever the collaborators otherwise do.
\<close>

theorem aggregation_deterministic:
  assumes "test_pages g ext w = Inr pages" and "test_pages g' ext' w' = Inr pages"
    and "fst (serve g ext (test_request payload) w) = Inr (Dict e)"
    and "fst (serve g' ext' (test_request payload') w') = Inr (Dict e')"
  shows "\<exists>md. result_markdown pages = Inr md \<and>
           map_of e ''result'' = Some md \<and> map_of e' ''result'' = Some md"
proof -
  from assms(3) have a: "fst (test g ext w) = Inr (Dict e)"
    by (simp add: serve_test to_caller_simps split: sum.splits)
  from assms(4) have b: "fst (test g' ext' w') = Inr (Dict e')"
    by (simp add: serve_test to_caller_simps split: sum.splits)
  from test_success [OF a] assms(1) obtain md where
    m: "result_markdown pages = Inr md" "map_of e ''result'' = Some md" by auto
  from test_success [OF b] assms(2) obtain md' where
    m': "result_markdown pages = Inr md'" "map_of e' ''result'' = Some md'" by auto
  from m m' show ?thesis by simp
qed

text \<open>C8 on two requests at different times: the timestamps differ, the result does not.\<close>

theorem aggregation_deterministic_witness:
  "fst (serve booted_globals (sample_ext [page_one, page_two]) (test_request ''a'') booted_world) =
     Inr (Dict [(''result'', ''Page One Text''), (''timestamp'', ''2025-08-17 09:30:02'')]) \<and>
   fst (serve booted_globals (sample_ext [page_one, page_two]) (test_request ''b'')
          (booted_world\<lparr>clock_reads := 40\<rparr>)) =
     Inr (Dict [(''result'', ''Page One Text''), (''timestamp'', ''2025-08-17 09:30:42'')]) \<and>
   result_markdown [page_one, page_two] = Inr ''Page One Text''"
proof -
  let ?ext = "sample_ext [page_one, page_two]"
  let ?w' = "booted_world\<lparr>clock_reads := 40\<rparr>"
  have p: "test_pages booted_globals ?ext booted_world = Inr [page_one, page_two]"
    by (simp add: test_pages_def sample_ext_def)
  have p': "test_pages booted_globals ?ext ?w' = Inr [page_one, page_two]"
    by (simp add: test_pages_def sample_ext_def)
  have h: "fst (serve booted_globals ?ext (test_request ''a'') booted_world) =
     Inr (Dict [(''result'', ''Page One Text''), (''timestamp'', ''2025-08-17 09:30:02'')])"
    by (simp add: run_defs)
  have h': "fst (serve booted_globals ?ext (test_request ''b'') ?w') =
     Inr (Dict [(''result'', ''Page One Text''), (''timestamp'', ''2025-08-17 09:30:42'')])"
    by (simp add: run_defs)
  from aggregation_deterministic [OF p p' h h'] have
    "result_markdown [page_one, page_two] = Inr ''Page One Text''" by auto
  with h h' show ?thesis by (intro conjI)
qed

text \<open>
  C9: whenever a request to \<open>/test\<close> returns a response, the files it has written are,
  for every page of the engine's answer and in page order, the page's markdown artifact
  and then its annotated image, all under the directory \<open>output\<close>: two files a page,
  also for the pages whose text is not in the response.
\<close>

theorem artifacts_written_for_every_page:
  assumes "fst (serve g ext (test_request payload) w) = Inr r"
  shows "\<exists>pages. test_pages g ext w = Inr pages \<and>
           fs (snd (serve g ext (test_request payload) w)) = fs w @ artifacts_of pages \<and>
           length (artifacts_of pages) = 2 * length pages"
proof -
  from assms have "fst (test g ext w) = Inr r"
    by (simp add: serve_test to_caller_simps split: sum.splits)
  from test_success [OF this] obtain pages where
    "test_pages g ext w = Inr pages" "fs (snd (test g ext w)) = fs w @ artifacts_of pages"
    by blast
  moreover have "length (artifacts_of pages) = 2 * length pages"
    by (induction pages) (simp_all add: artifacts_of_def)
  ultimately show ?thesis by (auto simp: serve_test to_caller_simps)
qed

text \<open>C9 on two pages: the response holds the first page's text only, and the four files
  of both pages are written in order.\<close>

theorem artifacts_written_for_every_page_witness:
  "fst (serve booted_globals (sample_ext [page_one, page_two]) (test_request []) booted_world) =
     Inr (Dict [(''result'', ''Page One Text''), (''timestamp'', ''2025-08-17 09:30:02'')]) \<and>
   fs (snd (serve booted_globals (sample_ext [page_one, page_two]) (test_request [])
              booted_world)) =
     [(Markdown_file, page_one, ''output''), (Img_file, page_one, ''output''),
      (Markdown_file, page_two, ''output''), (Img_file, page_two, ''output'')]"
proof -
  let ?ext = "sample_ext [page_one, page_two]"
  have h: "fst (serve booted_globals ?ext (test_request []) booted_world) =
     Inr (Dict [(''result'', ''Page One Text''), (''timestamp'', ''2025-08-17 09:30:02'')])"
    by (simp add: run_defs)
  have p: "test_pages booted_globals ?ext booted_world = Inr [page_one, page_two]"
    by (simp add: test_pages_def sample_ext_def)
  have f: "fs booted_world = []" by (simp add: booted_world_def module_init_def fresh_world_def)
  from artifacts_written_for_every_page [OF h] p f
  have "fs (snd (serve booted_globals ?ext (test_request []) booted_world)) =
          artifacts_of [page_one, page_two]" by auto
  with h show ?thesis by (simp add: artifacts_of_def)
qed

end
